theory Spec2Isabelle
  imports Complex_Main
begin

section \<open>JavaScript values\<close>

text \<open>
  The booking backend (\<^verbatim>\<open>server.js\<close>) reads its request bodies with \<^verbatim>\<open>express.json()\<close> and
  its bookings file with \<^verbatim>\<open>JSON.parse\<close>, so a field of a body or of a stored booking is any
  value that \<^verbatim>\<open>JSON.parse\<close> produces, or \<^verbatim>\<open>undefined\<close> when the property is absent.

  A number is a double: a finite value, kept here as the rational it denotes (\<open>-0\<close> is
  \<open>0\<close>, which no operation below tells apart), or an infinity, which \<^verbatim>\<open>JSON.parse\<close> gives
  for a literal out of range such as \<^verbatim>\<open>1e999\<close>. \<^verbatim>\<open>NaN\<close> has no JSON literal.
\<close>

datatype jsnum = Finite rat | PosInfinity | NegInfinity

datatype jsval =
  JUndefined | JNull | JBool bool | JNum jsnum | JStr string
  | JArray "jsval list" | JObject "(string \<times> jsval) list"

text \<open>\<^verbatim>\<open>!x\<close>: the falsy values are \<^verbatim>\<open>undefined\<close>, \<^verbatim>\<open>null\<close>, \<^verbatim>\<open>false\<close>, \<^verbatim>\<open>0\<close> and \<^verbatim>\<open>''\<close>.\<close>

fun falsy :: "jsval \<Rightarrow> bool" where
  "falsy JUndefined = True"
| "falsy JNull = True"
| "falsy (JBool b) = (\<not> b)"
| "falsy (JNum n) = (n = Finite 0)"
| "falsy (JStr s) = (s = [])"
| "falsy (JArray xs) = False"
| "falsy (JObject kvs) = False"

text \<open>\<^verbatim>\<open>x || ''\<close>.\<close>

definition or_empty :: "jsval \<Rightarrow> jsval" where
  "or_empty v = (if falsy v then JStr [] else v)"

text \<open>
  \<^verbatim>\<open>a === b\<close> where \<open>a\<close> and \<open>b\<close> come from two different parses (a stored booking and
  a request, or a stored booking and a string of the program): primitive values are compared
  by value; an array or an object is equal only to itself, so never to the other operand.
  \<^verbatim>\<open>Array.prototype.includes\<close> compares the same way on these values.
\<close>

fun compound :: "jsval \<Rightarrow> bool" where
  "compound (JArray xs) = True"
| "compound (JObject kvs) = True"
| "compound v = False"

definition strict_eq :: "jsval \<Rightarrow> jsval \<Rightarrow> bool" where
  "strict_eq a b = (\<not> compound a \<and> \<not> compound b \<and> a = b)"

definition includes_js :: "jsval list \<Rightarrow> jsval \<Rightarrow> bool" where
  "includes_js xs v = list_ex (\<lambda>x. strict_eq x v) xs"

text \<open>
  What \<^verbatim>\<open>JSON.parse\<close> reads back after \<^verbatim>\<open>JSON.stringify\<close> wrote a property value: an
  infinity is written as \<^verbatim>\<open>null\<close>; inside an array an \<^verbatim>\<open>undefined\<close> is written as \<^verbatim>\<open>null\<close>;
  a property that is \<^verbatim>\<open>undefined\<close> is left out, so it reads back as \<^verbatim>\<open>undefined\<close>.
\<close>

fun written :: "jsval \<Rightarrow> jsval" where
  "written (JNum n) = (case n of Finite q \<Rightarrow> JNum (Finite q) | _ \<Rightarrow> JNull)"
| "written (JArray xs) =
     JArray (map (\<lambda>x. let y = written x in if y = JUndefined then JNull else y) xs)"
| "written (JObject kvs) =
     JObject (filter (\<lambda>kv. snd kv \<noteq> JUndefined) (map (\<lambda>kv. (fst kv, written (snd kv))) kvs))"
| "written v = v"

text \<open>The values that are written back as they are and that \<^verbatim>\<open>===\<close> compares by value.\<close>

fun plain :: "jsval \<Rightarrow> bool" where
  "plain (JNum n) = (case n of Finite q \<Rightarrow> True | _ \<Rightarrow> False)"
| "plain (JArray xs) = False"
| "plain (JObject kvs) = False"
| "plain v = True"

section \<open>Data model\<close>

text \<open>The destructured request body of \<^verbatim>\<open>POST /api/bookings\<close>.\<close>

record body =
  firstName :: jsval
  lastName :: jsval
  email :: jsval
  phone :: jsval
  service :: jsval
  date :: jsval
  time :: jsval
  notes' :: jsval
  price :: jsval

text \<open>A stored booking: the body's fields, plus \<^verbatim>\<open>id\<close> and \<^verbatim>\<open>createdAt\<close>.\<close>

record booking = body +
  booking_id :: jsval
  createdAt :: jsval

record collection =
  bookings :: "booking list"

text \<open>A booking as it is read back after it was written.\<close>

definition written_booking :: "booking \<Rightarrow> booking" where
  "written_booking b =
     \<lparr>firstName = written (firstName b), lastName = written (lastName b),
      email = written (email b), phone = written (phone b), service = written (service b),
      date = written (date b), time = written (time b), notes' = written (notes' b),
      price = written (price b), booking_id = written (booking_id b),
      createdAt = written (createdAt b)\<rparr>"

section \<open>The bookings file\<close>

text \<open>
  The file is missing, present but unreadable, or holds a text; the text is either not
  JSON (\<open>Malformed\<close>) or a document that parses to a collection. \<^verbatim>\<open>fs.readFileSync\<close> throws
  on the first two, \<^verbatim>\<open>JSON.parse\<close> on a text that is not JSON.
\<close>

datatype file_text = Malformed | Document collection

datatype bookings_file = Missing | Unreadable | Stored file_text

datatype js_error = SystemError | SyntaxError

definition readFileSync :: "bookings_file \<Rightarrow> js_error + file_text" where
  "readFileSync f = (case f of Missing \<Rightarrow> Inl SystemError
                             | Unreadable \<Rightarrow> Inl SystemError
                             | Stored t \<Rightarrow> Inr t)"

definition JSON_parse :: "file_text \<Rightarrow> js_error + collection" where
  "JSON_parse t = (case t of Malformed \<Rightarrow> Inl SyntaxError | Document d \<Rightarrow> Inr d)"

text \<open>The document that \<^verbatim>\<open>JSON.stringify(data, null, 2)\<close> produces, as it parses.\<close>

definition JSON_stringify :: "collection \<Rightarrow> file_text" where
  "JSON_stringify d = Document \<lparr>bookings = map written_booking (bookings d)\<rparr>"

text \<open>
  \<^verbatim>\<open>readBookings\<close>: both throwing calls sit in one \<^verbatim>\<open>try\<close>, and the \<^verbatim>\<open>catch\<close> returns the
  empty collection.
\<close>

definition readBookings :: "bookings_file \<Rightarrow> collection" where
  "readBookings f =
     (case readFileSync f of
        Inl e \<Rightarrow> \<lparr>bookings = []\<rparr>
      | Inr t \<Rightarrow> (case JSON_parse t of
                    Inl e \<Rightarrow> \<lparr>bookings = []\<rparr>
                  | Inr d \<Rightarrow> d))"

text \<open>
  What the disk does at a write: it succeeds; or \<^verbatim>\<open>fs.writeFileSync\<close> throws before the
  file is touched, after the file was truncated (a strict prefix of a JSON object is not
  JSON), or after the whole text was written.
\<close>

datatype write_outcome = Written | FailedUntouched | FailedPartial | FailedWritten

definition writeFileSync ::
  "write_outcome \<Rightarrow> file_text \<Rightarrow> bookings_file \<Rightarrow> js_error option \<times> bookings_file" where
  "writeFileSync w t f =
     (case w of Written \<Rightarrow> (None, Stored t)
              | FailedUntouched \<Rightarrow> (Some SystemError, f)
              | FailedPartial \<Rightarrow> (Some SystemError, Stored Malformed)
              | FailedWritten \<Rightarrow> (Some SystemError, Stored t))"

text \<open>\<^verbatim>\<open>saveBookings\<close>: \<^verbatim>\<open>true\<close> when the write went through, \<^verbatim>\<open>false\<close> when it threw.\<close>

definition saveBookings ::
  "write_outcome \<Rightarrow> collection \<Rightarrow> bookings_file \<Rightarrow> bool \<times> bookings_file" where
  "saveBookings w d f =
     (case writeFileSync w (JSON_stringify d) f of
        (None, f') \<Rightarrow> (True, f')
      | (Some e, f') \<Rightarrow> (False, f'))"

text \<open>The bookings a handler sees in the file.\<close>

abbreviation stored :: "bookings_file \<Rightarrow> booking list" where
  "stored f \<equiv> bookings (readBookings f)"

text \<open>\<^verbatim>\<open>isTimeSlotAvailable\<close>: no stored booking has this date and this time.\<close>

definition isTimeSlotAvailable :: "bookings_file \<Rightarrow> jsval \<Rightarrow> jsval \<Rightarrow> bool" where
  "isTimeSlotAvailable f d t =
     (let data = readBookings f;
          existingBooking =
            find (\<lambda>b. strict_eq (date b) d \<and> strict_eq (time b) t) (bookings data)
      in existingBooking = None)"

section \<open>Responses\<close>

text \<open>
  The literal message texts of the source, by the place they are sent from:
  \<open>DateRequired\<close> is \<^verbatim>\<open>'Date parameter is required'\<close>, \<open>FieldsRequired\<close> the 400 of
  the booking handler, \<open>SlotTaken\<close> its 409, \<open>SaveFailed\<close> its 500, \<open>BookingCreated\<close>
  its 201, \<open>BookingNotFound\<close> the 404 of the delete handler, \<open>BookingDeleted\<close> its
  success message and \<open>EndpointNotFound\<close> the 404 of the fallback handler. A payload is the
  object handed to \<^verbatim>\<open>res.json\<close>.
\<close>

datatype message =
  DateRequired | FieldsRequired | SlotTaken | SaveFailed | BookingCreated
  | BookingNotFound | BookingDeleted | EndpointNotFound

record confirmation =
  conf_id :: jsval
  conf_date :: jsval
  conf_time :: jsval
  conf_service :: jsval

datatype payload =
  ErrorBody message
  | AvailableBody jsval "string list" "jsval list"
  | CreatedBody bool message confirmation
  | DeletedBody bool message
  | ListBody "booking list"

record response =
  status :: nat
  payload :: payload

section \<open>Availability\<close>

definition allTimeSlots :: "string list" where
  "allTimeSlots =
     [''08:00'', ''09:00'', ''10:00'', ''11:00'', ''12:00'',
      ''13:00'', ''14:00'', ''15:00'', ''16:00'', ''17:00'', ''18:00'']"

text \<open>\<^verbatim>\<open>GET /api/available-times\<close>, on the query parameter \<^verbatim>\<open>date\<close>.\<close>

definition availableSlots :: "jsval \<Rightarrow> bookings_file \<Rightarrow> response" where
  "availableSlots d f =
     (if falsy d then \<lparr>status = 400, payload = ErrorBody DateRequired\<rparr>
      else
        let data = readBookings f;
            bookedTimes = map time (filter (\<lambda>b. strict_eq (date b) d) (bookings data));
            availableTimes = filter (\<lambda>t. \<not> includes_js bookedTimes (JStr t)) allTimeSlots
        in \<lparr>status = 200, payload = AvailableBody d availableTimes bookedTimes\<rparr>)"

section \<open>Identifiers\<close>

text \<open>
  \<^verbatim>\<open>Date.now().toString()\<close>: the clock reading, an integer number of milliseconds, in
  decimal (clock readings stay far below \<open>10\<^sup>2\<^sup>1\<close>, where JavaScript starts to print
  exponents).
\<close>

definition digit_char :: "nat \<Rightarrow> char" where
  "digit_char n = ''0123456789'' ! n"

fun digits :: "nat \<Rightarrow> string" where
  "digits n = (if n < 10 then [digit_char n] else digits (n div 10) @ [digit_char (n mod 10)])"

declare digits.simps [simp del]

definition toString :: "int \<Rightarrow> string" where
  "toString i = (if i < 0 then CHR ''-'' # digits (nat (- i)) else digits (nat i))"

section \<open>Notifications\<close>

text \<open>
  The two mails of a booking. The transporter is the outside world: it tells, for each
  mail, whether \<^verbatim>\<open>sendMail\<close> resolves or rejects. Each send function catches the
  rejection, writes one console line and yields \<^verbatim>\<open>true\<close> or \<^verbatim>\<open>false\<close>.
\<close>

datatype mail = ClinicMail booking | ClientMail jsval booking

datatype log_line = ClinicSent | ClinicError | ClientSent | ClientError

definition sendClinicNotification :: "(mail \<Rightarrow> bool) \<Rightarrow> booking \<Rightarrow> bool \<times> log_line" where
  "sendClinicNotification transporter b =
     (if transporter (ClinicMail b) then (True, ClinicSent) else (False, ClinicError))"

definition sendClientConfirmation :: "(mail \<Rightarrow> bool) \<Rightarrow> booking \<Rightarrow> bool \<times> log_line" where
  "sendClientConfirmation transporter b =
     (if transporter (ClientMail (email b) b) then (True, ClientSent) else (False, ClientError))"

section \<open>Creating, listing and deleting bookings\<close>

text \<open>
  What a request handler reads from the outside world: the clock (\<^verbatim>\<open>Date.now()\<close> and
  \<^verbatim>\<open>new Date().toISOString()\<close>), the fate of the write, and the mail transporter.
\<close>

record env =
  now :: int
  isoNow :: string
  disk :: write_outcome
  transporter :: "mail \<Rightarrow> bool"

text \<open>
  What a handler leaves behind: the response, the bookings file, and the console lines of
  the notification tasks it started.
\<close>

record outcome =
  response :: response
  fs :: bookings_file
  console :: "log_line list"

text \<open>The fields the booking handler requires, in the order it tests them.\<close>

definition required_fields :: "body \<Rightarrow> jsval list" where
  "required_fields rq =
     [firstName rq, lastName rq, email rq, phone rq, service rq, date rq, time rq]"

text \<open>The object \<^verbatim>\<open>newBooking\<close> the handler builds from the body and the clock.\<close>

definition newBooking :: "env \<Rightarrow> body \<Rightarrow> booking" where
  "newBooking e rq =
     \<lparr>firstName = firstName rq, lastName = lastName rq, email = email rq,
      phone = phone rq, service = service rq, date = date rq, time = time rq,
      notes' = or_empty (notes' rq), price = or_empty (price rq),
      booking_id = JStr (toString (now e)), createdAt = JStr (isoNow e)\<rparr>"

text \<open>
  \<^verbatim>\<open>POST /api/bookings\<close>. The two notification calls are started and not awaited: their
  values \<open>r1\<close> and \<open>r2\<close> are dropped, their console lines remain.
\<close>

definition createBooking :: "env \<Rightarrow> body \<Rightarrow> bookings_file \<Rightarrow> outcome" where
  "createBooking e rq f =
     (if falsy (firstName rq) \<or> falsy (lastName rq) \<or> falsy (email rq) \<or> falsy (phone rq)
         \<or> falsy (service rq) \<or> falsy (date rq) \<or> falsy (time rq)
      then \<lparr>response = \<lparr>status = 400, payload = ErrorBody FieldsRequired\<rparr>,
            fs = f, console = []\<rparr>
      else if \<not> isTimeSlotAvailable f (date rq) (time rq)
      then \<lparr>response = \<lparr>status = 409, payload = ErrorBody SlotTaken\<rparr>,
            fs = f, console = []\<rparr>
      else
        let nb = newBooking e rq;
            data = readBookings f;
            data' = data\<lparr>bookings := bookings data @ [nb]\<rparr>;
            (saved, f') = saveBookings (disk e) data' f
        in if \<not> saved
           then \<lparr>response = \<lparr>status = 500, payload = ErrorBody SaveFailed\<rparr>,
                 fs = f', console = []\<rparr>
           else
             let (r1, l1) = sendClinicNotification (transporter e) nb;
                 (r2, l2) = sendClientConfirmation (transporter e) nb
             in \<lparr>response =
                    \<lparr>status = 201,
                     payload = CreatedBody True BookingCreated
                       \<lparr>conf_id = booking_id nb, conf_date = date nb,
                        conf_time = time nb, conf_service = service nb\<rparr>\<rparr>,
                  fs = f', console = [l1, l2]\<rparr>)"

text \<open>\<^verbatim>\<open>GET /api/bookings\<close>.\<close>

definition listBookings :: "bookings_file \<Rightarrow> response" where
  "listBookings f =
     (let data = readBookings f in \<lparr>status = 200, payload = ListBody (bookings data)\<rparr>)"

text \<open>\<^verbatim>\<open>Array.prototype.findIndex\<close>: the first index whose element passes, or \<open>-1\<close>.\<close>

fun findIndex :: "('a \<Rightarrow> bool) \<Rightarrow> 'a list \<Rightarrow> int" where
  "findIndex P [] = - 1"
| "findIndex P (x # xs) =
     (if P x then 0 else (let i = findIndex P xs in if i = - 1 then - 1 else i + 1))"

text \<open>\<^verbatim>\<open>xs.splice(start, count)\<close> with \<open>start\<close> an index of the array: the array that remains.\<close>

definition splice_js :: "nat \<Rightarrow> nat \<Rightarrow> 'a list \<Rightarrow> 'a list" where
  "splice_js start count xs = take start xs @ drop (start + count) xs"

text \<open>
  \<^verbatim>\<open>DELETE /api/bookings/:id\<close>. The route matches only a path with a non-empty last
  segment; a request without one falls through to the fallback handler, which answers 404
  \<^verbatim>\<open>'Endpoint not found'\<close>. In the handler the value of \<^verbatim>\<open>saveBookings\<close> is not looked at.
\<close>

definition deleteBooking :: "write_outcome \<Rightarrow> string \<Rightarrow> bookings_file \<Rightarrow> outcome" where
  "deleteBooking w i f =
     (if i = []
      then \<lparr>response = \<lparr>status = 404, payload = ErrorBody EndpointNotFound\<rparr>,
            fs = f, console = []\<rparr>
      else
        let data = readBookings f;
            bookingIndex = findIndex (\<lambda>b. strict_eq (booking_id b) (JStr i)) (bookings data)
        in if bookingIndex = - 1
           then \<lparr>response = \<lparr>status = 404, payload = ErrorBody BookingNotFound\<rparr>,
                 fs = f, console = []\<rparr>
           else
             let data' = data\<lparr>bookings := splice_js (nat bookingIndex) 1 (bookings data)\<rparr>;
                 (saved, f') = saveBookings w data' f
             in \<lparr>response = \<lparr>status = 200, payload = DeletedBody True BookingDeleted\<rparr>,
                 fs = f', console = []\<rparr>)"

section \<open>Sequences of mutating requests\<close>

datatype request = Create env body | Delete write_outcome string

definition handle :: "bookings_file \<Rightarrow> request \<Rightarrow> bookings_file" where
  "handle f r = (case r of Create e rq \<Rightarrow> fs (createBooking e rq f)
                         | Delete w i \<Rightarrow> fs (deleteBooking w i f))"

definition run :: "bookings_file \<Rightarrow> request list \<Rightarrow> bookings_file" where
  "run f rs = foldl handle f rs"

text \<open>The integrity constraint: no two stored bookings share date and time.\<close>

definition slots :: "booking list \<Rightarrow> (jsval \<times> jsval) list" where
  "slots bs = map (\<lambda>b. (date b, time b)) bs"

definition slot_unique :: "booking list \<Rightarrow> bool" where
  "slot_unique bs = distinct (slots bs)"

text \<open>Stored bookings, and requests, whose date and time are plain values.\<close>

definition plain_slots :: "booking list \<Rightarrow> bool" where
  "plain_slots bs = list_all (\<lambda>b. plain (date b) \<and> plain (time b)) bs"

definition plain_request :: "request \<Rightarrow> bool" where
  "plain_request r =
     (case r of Create e rq \<Rightarrow> plain (date rq) \<and> plain (time rq) | Delete w i \<Rightarrow> True)"

section \<open>Sample data\<close>

text \<open>The file the server writes at start-up when none exists: \<^verbatim>\<open>{ bookings: [] }\<close>.\<close>

definition initial_file :: bookings_file where
  "initial_file = Stored (Document \<lparr>bookings = []\<rparr>)"

definition sample_body :: body where
  "sample_body =
     \<lparr>firstName = JStr ''Anna'', lastName = JStr ''Nowak'', email = JStr ''anna@example.com'',
      phone = JStr ''600100200'', service = JStr ''Masaz'', date = JStr ''2025-03-10'',
      time = JStr ''09:00'', notes' = JUndefined, price = JStr ''150 zl''\<rparr>"

definition sample_env :: env where
  "sample_env =
     \<lparr>now = 1741600000000, isoNow = ''2025-03-10T09:46:40.000Z'', disk = Written,
      transporter = (\<lambda>m. True)\<rparr>"

text \<open>The file after one booking, for 09:00.\<close>

definition single_file :: bookings_file where
  "single_file = run initial_file [Create sample_env sample_body]"

text \<open>Two bookings made within one millisecond, for 09:00 and for 10:00 of one day.\<close>

definition twin_file :: bookings_file where
  "twin_file =
     run initial_file
       [Create sample_env sample_body, Create sample_env (sample_body\<lparr>time := JStr ''10:00''\<rparr>)]"

text \<open>The body with the time given as a one-element array, and the file after booking it.\<close>

definition array_body :: body where
  "array_body = sample_body\<lparr>time := JArray [JStr ''09:00'']\<rparr>"

definition array_file :: bookings_file where
  "array_file = run initial_file [Create sample_env array_body]"

text \<open>The body with the time given as the number literal \<^verbatim>\<open>1e999\<close>.\<close>

definition huge_body :: body where
  "huge_body = sample_body\<lparr>time := JNum PosInfinity\<rparr>"

text \<open>The file after that body was booked twice, one millisecond apart.\<close>

definition huge_file :: bookings_file where
  "huge_file =
     run initial_file
       [Create sample_env huge_body, Create (sample_env\<lparr>now := 1741600000001\<rparr>) huge_body]"

section \<open>Basic facts about values, the file and the array helpers\<close>

lemma falsy_iff:
  "falsy v \<longleftrightarrow> v \<in> {JUndefined, JNull, JBool False, JNum (Finite 0), JStr []}"
  by (cases v) auto

lemma strict_eq_imp_eq: "strict_eq a b \<Longrightarrow> a = b"
  by (simp add: strict_eq_def)

lemma strict_eq_iff: "\<not> compound a \<Longrightarrow> strict_eq b a \<longleftrightarrow> b = a"
  by (auto simp: strict_eq_def)

lemma strict_eq_JStr: "strict_eq b (JStr s) \<longleftrightarrow> b = JStr s"
  by (simp add: strict_eq_iff)

lemma plain_not_compound: "plain v \<Longrightarrow> \<not> compound v"
  by (cases v) auto

lemma written_plain: "plain v \<Longrightarrow> written v = v"
  by (cases v) (auto split: jsnum.splits)

lemma plain_written: "plain v \<Longrightarrow> plain (written v)"
  by (simp add: written_plain)

lemma written_JStr_iff: "written v = JStr s \<longleftrightarrow> v = JStr s"
  by (cases v) (auto split: jsnum.splits)

lemma includes_js_JStr: "includes_js xs (JStr s) \<longleftrightarrow> JStr s \<in> set xs"
  by (auto simp: includes_js_def list_ex_iff strict_eq_JStr)

lemma date_written_booking: "date (written_booking b) = written (date b)"
  and time_written_booking: "time (written_booking b) = written (time b)"
  and booking_id_written_booking: "booking_id (written_booking b) = written (booking_id b)"
  by (simp_all add: written_booking_def)

lemma collection_update: "(d :: collection)\<lparr>bookings := xs\<rparr> = \<lparr>bookings = xs\<rparr>"
  by (cases d) simp

lemma readBookings_Missing: "readBookings Missing = \<lparr>bookings = []\<rparr>"
  by (simp add: readBookings_def readFileSync_def)

lemma readBookings_Unreadable: "readBookings Unreadable = \<lparr>bookings = []\<rparr>"
  by (simp add: readBookings_def readFileSync_def)

lemma readBookings_Malformed: "readBookings (Stored Malformed) = \<lparr>bookings = []\<rparr>"
  by (simp add: readBookings_def readFileSync_def JSON_parse_def)

lemma readBookings_Document: "readBookings (Stored (Document d)) = d"
  by (simp add: readBookings_def readFileSync_def JSON_parse_def)

lemma readBookings_stringify:
  "readBookings (Stored (JSON_stringify d)) = \<lparr>bookings = map written_booking (bookings d)\<rparr>"
  by (simp add: JSON_stringify_def readBookings_Document)

lemmas readBookings_simps =
  readBookings_Missing readBookings_Unreadable readBookings_Malformed readBookings_Document
  readBookings_stringify

lemma saveBookings_Written: "saveBookings Written d f = (True, Stored (JSON_stringify d))"
  by (simp add: saveBookings_def writeFileSync_def)

lemma saveBookings_FailedUntouched: "saveBookings FailedUntouched d f = (False, f)"
  by (simp add: saveBookings_def writeFileSync_def)

lemma saveBookings_FailedPartial: "saveBookings FailedPartial d f = (False, Stored Malformed)"
  by (simp add: saveBookings_def writeFileSync_def)

lemma saveBookings_FailedWritten:
  "saveBookings FailedWritten d f = (False, Stored (JSON_stringify d))"
  by (simp add: saveBookings_def writeFileSync_def)

lemmas saveBookings_simps =
  saveBookings_Written saveBookings_FailedUntouched saveBookings_FailedPartial
  saveBookings_FailedWritten

lemma isTimeSlotAvailable_iff:
  "isTimeSlotAvailable f d t \<longleftrightarrow>
     (\<forall>b \<in> set (stored f). \<not> (strict_eq (date b) d \<and> strict_eq (time b) t))"
  by (auto simp: isTimeSlotAvailable_def find_None_iff)

text \<open>A pair that is in no stored booking is seen as free.\<close>

lemma free_slot_available:
  "(d, t) \<notin> set (slots (stored f)) \<Longrightarrow> isTimeSlotAvailable f d t"
  by (force simp: isTimeSlotAvailable_iff slots_def dest: strict_eq_imp_eq)

text \<open>A stored pair is seen as taken when neither value is an array or an object.\<close>

lemma taken_slot_unavailable:
  "(d, t) \<in> set (slots (stored f)) \<Longrightarrow> \<not> compound d \<Longrightarrow> \<not> compound t
   \<Longrightarrow> \<not> isTimeSlotAvailable f d t"
  by (force simp: isTimeSlotAvailable_iff slots_def strict_eq_iff)

lemma available_iff_free:
  "\<not> compound d \<Longrightarrow> \<not> compound t
   \<Longrightarrow> isTimeSlotAvailable f d t \<longleftrightarrow> (d, t) \<notin> set (slots (stored f))"
  using free_slot_available taken_slot_unavailable by blast

lemma findIndex_range: "- 1 \<le> findIndex P xs \<and> findIndex P xs < int (length xs)"
  by (induction xs) (auto simp: Let_def)

lemma findIndex_none: "findIndex P xs = - 1 \<longleftrightarrow> (\<forall>x \<in> set xs. \<not> P x)"
proof (induction xs)
  case Nil
  show ?case by simp
next
  case (Cons x xs)
  have "- 1 \<le> findIndex P xs" using findIndex_range [of P xs] by simp
  with Cons show ?case by (auto simp: Let_def)
qed

lemma findIndex_found:
  assumes "findIndex P xs \<noteq> - 1"
  shows "nat (findIndex P xs) < length xs \<and> P (xs ! nat (findIndex P xs))
         \<and> (\<forall>j < nat (findIndex P xs). \<not> P (xs ! j))"
  using assms
proof (induction xs)
  case Nil
  then show ?case by simp
next
  case (Cons x xs)
  show ?case
  proof (cases "P x")
    case True
    then show ?thesis by simp
  next
    case False
    with Cons.prems have ne: "findIndex P xs \<noteq> - 1" by (auto simp: Let_def)
    have ge: "0 \<le> findIndex P xs" using findIndex_range [of P xs] ne by arith
    have eq: "findIndex P (x # xs) = findIndex P xs + 1" using False ne by (simp add: Let_def)
    have n: "nat (findIndex P xs + 1) = Suc (nat (findIndex P xs))" using ge by simp
    from Cons.IH [OF ne] show ?thesis
      unfolding eq n using False by (auto simp: less_Suc_eq_0_disj)
  qed
qed

lemma distinct_map_splice:
  assumes "distinct (map g xs)"
  shows "distinct (map g (splice_js i n xs))"
proof -
  have "distinct (map g (take i xs @ drop i xs))" using assms by simp
  then have d1: "distinct (map g (take i xs))" and d2: "distinct (map g (drop i xs))"
    and dj: "set (map g (take i xs)) \<inter> set (map g (drop i xs)) = {}"
    by (simp_all only: map_append distinct_append)
  have sub: "set (drop (i + n) xs) \<subseteq> set (drop i xs)"
    using set_drop_subset [of n "drop i xs"] by (simp add: add.commute)
  have d3: "distinct (map g (drop (i + n) xs))"
    using assms by (simp add: distinct_drop flip: drop_map)
  have "set (map g (take i xs)) \<inter> set (map g (drop (i + n) xs)) = {}"
    using dj sub by auto
  with d1 d3 show ?thesis by (simp add: splice_js_def)
qed

lemma digit_char_inj: "a < 10 \<Longrightarrow> b < 10 \<Longrightarrow> digit_char a = digit_char b \<Longrightarrow> a = b"
proof -
  assume a: "a < 10" and b: "b < 10" and eq: "digit_char a = digit_char b"
  have "distinct ''0123456789''" by simp
  from nth_eq_iff_index_eq [OF this, of a b] a b eq show "a = b"
    by (simp add: digit_char_def)
qed

lemma digit_char_not_minus: "a < 10 \<Longrightarrow> digit_char a \<noteq> CHR ''-''"
proof -
  assume "a < 10"
  then have "''0123456789'' ! a \<in> set ''0123456789''" by (intro nth_mem) simp
  then show ?thesis unfolding digit_char_def by auto
qed

lemma toString_sample: "toString 1741600000000 = ''1741600000000''"
  by (simp add: toString_def digits.simps digit_char_def)

lemma digits_not_Nil: "digits n \<noteq> []"
  by (subst digits.simps) simp

lemma digits_hd_not_minus: "hd (digits n) \<noteq> CHR ''-''"
proof (induction n rule: digits.induct)
  case (1 n)
  show ?case
  proof (cases "n < 10")
    case True
    then show ?thesis by (subst digits.simps) (simp add: digit_char_not_minus)
  next
    case False
    with 1 show ?thesis by (subst digits.simps) (simp add: digits_not_Nil)
  qed
qed

lemma digits_inj: "digits n = digits m \<Longrightarrow> n = m"
proof (induction n arbitrary: m rule: digits.induct)
  case (1 n)
  note eq = \<open>digits n = digits m\<close>
  show ?case
  proof (cases "n < 10")
    case n: True
    show ?thesis
    proof (cases "m < 10")
      case True
      with n eq show ?thesis by (simp add: digits.simps [of n] digits.simps [of m] digit_char_inj)
    next
      case False
      with n eq digits_not_Nil [of "m div 10"] show ?thesis
        by (simp add: digits.simps [of n] digits.simps [of m])
    qed
  next
    case n: False
    show ?thesis
    proof (cases "m < 10")
      case True
      with n eq digits_not_Nil [of "n div 10"] show ?thesis
        by (simp add: digits.simps [of n] digits.simps [of m])
    next
      case False
      with n eq have d: "digits (n div 10) = digits (m div 10)"
        and c: "digit_char (n mod 10) = digit_char (m mod 10)"
        by (simp_all add: digits.simps [of n] digits.simps [of m])
      from 1 (1) [OF n d] have "n div 10 = m div 10" .
      moreover from c have "n mod 10 = m mod 10" by (simp add: digit_char_inj)
      ultimately show ?thesis by (metis div_mult_mod_eq)
    qed
  qed
qed

lemma toString_inj: "toString i = toString j \<Longrightarrow> i = j"
proof -
  assume eq: "toString i = toString j"
  have hd_i: "hd (digits n) \<noteq> CHR ''-''" for n by (rule digits_hd_not_minus)
  show "i = j"
  proof (cases "i < 0")
    case i: True
    show ?thesis
    proof (cases "j < 0")
      case True
      with i eq have "nat (- i) = nat (- j)" by (simp add: toString_def digits_inj)
      with i True show ?thesis by simp
    next
      case False
      with i eq have "hd (CHR ''-'' # digits (nat (- i))) = hd (digits (nat j))"
        by (simp add: toString_def)
      with hd_i [of "nat j"] show ?thesis by simp
    qed
  next
    case i: False
    show ?thesis
    proof (cases "j < 0")
      case True
      with i eq have "hd (digits (nat i)) = hd (CHR ''-'' # digits (nat (- j)))"
        by (simp add: toString_def)
      with hd_i [of "nat i"] show ?thesis by simp
    next
      case False
      with i eq have "nat i = nat j" by (simp add: toString_def digits_inj)
      with i False show ?thesis by simp
    qed
  qed
qed

section \<open>The branches of the two mutating handlers\<close>

lemma required_ok_iff:
  "(\<forall>v \<in> set (required_fields rq). \<not> falsy v) \<longleftrightarrow>
   \<not> (falsy (firstName rq) \<or> falsy (lastName rq) \<or> falsy (email rq) \<or> falsy (phone rq)
         \<or> falsy (service rq) \<or> falsy (date rq) \<or> falsy (time rq))"
  by (simp add: required_fields_def)

lemma createBooking_400:
  assumes "\<exists>v \<in> set (required_fields rq). falsy v"
  shows "createBooking e rq f =
           \<lparr>response = \<lparr>status = 400, payload = ErrorBody FieldsRequired\<rparr>, fs = f, console = []\<rparr>"
proof -
  have "falsy (firstName rq) \<or> falsy (lastName rq) \<or> falsy (email rq) \<or> falsy (phone rq)
         \<or> falsy (service rq) \<or> falsy (date rq) \<or> falsy (time rq)"
    using assms required_ok_iff [of rq] by blast
  then show ?thesis by (simp add: createBooking_def)
qed

lemma createBooking_409:
  assumes "\<forall>v \<in> set (required_fields rq). \<not> falsy v"
    and "\<not> isTimeSlotAvailable f (date rq) (time rq)"
  shows "createBooking e rq f =
           \<lparr>response = \<lparr>status = 409, payload = ErrorBody SlotTaken\<rparr>, fs = f, console = []\<rparr>"
proof -
  have "\<not> (falsy (firstName rq) \<or> falsy (lastName rq) \<or> falsy (email rq) \<or> falsy (phone rq)
         \<or> falsy (service rq) \<or> falsy (date rq) \<or> falsy (time rq))"
    using assms(1) required_ok_iff [of rq] by blast
  then show ?thesis using assms(2) by (simp add: createBooking_def)
qed

lemma createBooking_500:
  assumes "\<forall>v \<in> set (required_fields rq). \<not> falsy v"
    and "isTimeSlotAvailable f (date rq) (time rq)"
    and "disk e \<noteq> Written"
  shows "createBooking e rq f =
           \<lparr>response = \<lparr>status = 500, payload = ErrorBody SaveFailed\<rparr>,
            fs = (case disk e of
                    FailedUntouched \<Rightarrow> f
                  | FailedPartial \<Rightarrow> Stored Malformed
                  | _ \<Rightarrow> Stored (JSON_stringify \<lparr>bookings = stored f @ [newBooking e rq]\<rparr>)),
            console = []\<rparr>"
proof -
  have "\<not> (falsy (firstName rq) \<or> falsy (lastName rq) \<or> falsy (email rq) \<or> falsy (phone rq)
         \<or> falsy (service rq) \<or> falsy (date rq) \<or> falsy (time rq))"
    using assms(1) required_ok_iff [of rq] by blast
  then show ?thesis
    using assms(2,3)
    by (cases "disk e")
       (simp_all add: createBooking_def saveBookings_simps Let_def collection_update)
qed

lemma createBooking_201:
  assumes "\<forall>v \<in> set (required_fields rq). \<not> falsy v"
    and "isTimeSlotAvailable f (date rq) (time rq)"
    and "disk e = Written"
  shows "createBooking e rq f =
           \<lparr>response =
              \<lparr>status = 201,
               payload = CreatedBody True BookingCreated
                 \<lparr>conf_id = JStr (toString (now e)), conf_date = date rq,
                  conf_time = time rq, conf_service = service rq\<rparr>\<rparr>,
            fs = Stored (JSON_stringify \<lparr>bookings = stored f @ [newBooking e rq]\<rparr>),
            console = [snd (sendClinicNotification (transporter e) (newBooking e rq)),
                       snd (sendClientConfirmation (transporter e) (newBooking e rq))]\<rparr>"
proof -
  have "\<not> (falsy (firstName rq) \<or> falsy (lastName rq) \<or> falsy (email rq) \<or> falsy (phone rq)
         \<or> falsy (service rq) \<or> falsy (date rq) \<or> falsy (time rq))"
    using assms(1) required_ok_iff [of rq] by blast
  then show ?thesis
    using assms(2,3)
    by (simp add: createBooking_def saveBookings_simps Let_def newBooking_def split_beta
        collection_update)
qed

text \<open>The four branches cover every call.\<close>

lemma createBooking_cases:
  obtains
    (invalid) "\<exists>v \<in> set (required_fields rq). falsy v"
  | (taken) "\<forall>v \<in> set (required_fields rq). \<not> falsy v"
      "\<not> isTimeSlotAvailable f (date rq) (time rq)"
  | (failed) "\<forall>v \<in> set (required_fields rq). \<not> falsy v"
      "isTimeSlotAvailable f (date rq) (time rq)" "disk e \<noteq> Written"
  | (saved) "\<forall>v \<in> set (required_fields rq). \<not> falsy v"
      "isTimeSlotAvailable f (date rq) (time rq)" "disk e = Written"
  by blast

lemma stored_createBooking_201:
  assumes "\<forall>v \<in> set (required_fields rq). \<not> falsy v"
    and "isTimeSlotAvailable f (date rq) (time rq)"
    and "disk e = Written"
  shows "stored (fs (createBooking e rq f)) = map written_booking (stored f @ [newBooking e rq])"
  by (simp add: createBooking_201 [OF assms] readBookings_simps)

lemma deleteBooking_404:
  assumes "i \<noteq> []" and "\<forall>b \<in> set (stored f). booking_id b \<noteq> JStr i"
  shows "deleteBooking w i f =
           \<lparr>response = \<lparr>status = 404, payload = ErrorBody BookingNotFound\<rparr>, fs = f, console = []\<rparr>"
proof -
  have "findIndex (\<lambda>b. strict_eq (booking_id b) (JStr i)) (stored f) = - 1"
    using assms(2) by (simp add: findIndex_none strict_eq_JStr)
  then show ?thesis using assms(1) by (simp add: deleteBooking_def)
qed

lemma deleteBooking_200:
  assumes "i \<noteq> []" and "\<exists>b \<in> set (stored f). booking_id b = JStr i"
  shows "deleteBooking w i f =
           \<lparr>response = \<lparr>status = 200, payload = DeletedBody True BookingDeleted\<rparr>,
            fs = snd (saveBookings w
                   \<lparr>bookings =
                      take (nat (findIndex (\<lambda>b. booking_id b = JStr i) (stored f))) (stored f)
                      @ drop (Suc (nat (findIndex (\<lambda>b. booking_id b = JStr i) (stored f))))
                          (stored f)\<rparr> f),
            console = []\<rparr>"
proof -
  have "findIndex (\<lambda>b. strict_eq (booking_id b) (JStr i)) (stored f) \<noteq> - 1"
    using assms(2) by (simp add: findIndex_none strict_eq_JStr)
  then show ?thesis using assms(1)
    by (simp add: deleteBooking_def Let_def split_beta strict_eq_JStr collection_update
        splice_js_def)
qed

text \<open>Either handler keeps the slot invariant when dates and times are plain values.\<close>

lemma slots_written_plain:
  "plain_slots bs \<Longrightarrow> slots (map written_booking bs) = slots bs
                     \<and> plain_slots (map written_booking bs)"
  by (induction bs)
     (auto simp: plain_slots_def slots_def date_written_booking time_written_booking
        written_plain)

lemma slot_inv_createBooking:
  assumes "slot_unique (stored f)" and "plain_slots (stored f)"
    and "plain (date rq)" and "plain (time rq)"
  shows "slot_unique (stored (fs (createBooking e rq f)))
         \<and> plain_slots (stored (fs (createBooking e rq f)))"
proof -
  let ?new = "stored f @ [newBooking e rq]"
  have avail: "isTimeSlotAvailable f (date rq) (time rq)
               \<longleftrightarrow> (date rq, time rq) \<notin> set (slots (stored f))"
    using assms(3,4) by (simp add: available_iff_free plain_not_compound)
  have pl: "plain_slots ?new"
    using assms(2,3,4) by (simp add: plain_slots_def newBooking_def)
  note new = slots_written_plain [OF pl]
  have uniq: "slot_unique ?new" if "isTimeSlotAvailable f (date rq) (time rq)"
    using that assms(1) avail by (simp add: slot_unique_def slots_def newBooking_def)
  show ?thesis
  proof (cases rule: createBooking_cases [where rq = rq and f = f and e = e])
    case invalid
    then show ?thesis using assms(1,2) by (simp add: createBooking_400)
  next
    case taken
    then show ?thesis using assms(1,2) by (simp add: createBooking_409)
  next
    case failed
    show ?thesis
    proof (cases "disk e")
      case Written
      with failed show ?thesis by simp
    next
      case FailedUntouched
      then show ?thesis using assms(1,2) by (simp add: createBooking_500 [OF failed])
    next
      case FailedPartial
      then show ?thesis
        by (simp add: createBooking_500 [OF failed] readBookings_simps slot_unique_def
            plain_slots_def slots_def)
    next
      case FailedWritten
      then show ?thesis using new uniq [OF failed(2)]
        by (simp add: createBooking_500 [OF failed] readBookings_simps slot_unique_def)
    qed
  next
    case saved
    then show ?thesis using new uniq
      by (simp add: createBooking_201 readBookings_simps slot_unique_def)
  qed
qed

lemma slot_inv_deleteBooking:
  assumes "slot_unique (stored f)" and "plain_slots (stored f)"
  shows "slot_unique (stored (fs (deleteBooking w i f)))
         \<and> plain_slots (stored (fs (deleteBooking w i f)))"
proof (cases "i \<noteq> [] \<and> (\<exists>b \<in> set (stored f). booking_id b = JStr i)")
  case False
  show ?thesis
  proof (cases "i = []")
    case True
    then show ?thesis using assms by (simp add: deleteBooking_def)
  next
    case ne: False
    with False have "\<forall>b \<in> set (stored f). booking_id b \<noteq> JStr i" by simp
    then show ?thesis using assms by (simp add: deleteBooking_404 [OF ne])
  qed
next
  case True
  let ?k = "nat (findIndex (\<lambda>b. booking_id b = JStr i) (stored f))"
  let ?rest = "take ?k (stored f) @ drop (Suc ?k) (stored f)"
  have u: "slot_unique ?rest"
    using assms(1) distinct_map_splice [of "\<lambda>b. (date b, time b)" "stored f" ?k 1]
    by (simp add: slot_unique_def slots_def splice_js_def)
  have "set ?rest \<subseteq> set (stored f)"
    by (auto dest: in_set_takeD in_set_dropD)
  then have p: "plain_slots ?rest"
    using assms(2) by (auto simp: plain_slots_def list_all_iff)
  note new = slots_written_plain [OF p]
  from True have i: "i \<noteq> []" and ex: "\<exists>b \<in> set (stored f). booking_id b = JStr i"
    by simp_all
  note eq = deleteBooking_200 [OF i ex]
  show ?thesis
  proof (cases w)
    case Written
    then show ?thesis using u new
      by (simp add: eq saveBookings_simps readBookings_simps slot_unique_def)
  next
    case FailedUntouched
    then show ?thesis using assms by (simp add: eq saveBookings_simps)
  next
    case FailedPartial
    then show ?thesis
      by (simp add: eq saveBookings_simps readBookings_simps slot_unique_def plain_slots_def
          slots_def)
  next
    case FailedWritten
    then show ?thesis using u new
      by (simp add: eq saveBookings_simps readBookings_simps slot_unique_def)
  qed
qed

section \<open>Facts about the sample data\<close>

lemma sample_body_valid: "\<forall>v \<in> set (required_fields sample_body). \<not> falsy v"
  by (simp add: required_fields_def sample_body_def)

lemma stored_initial_file: "stored initial_file = []"
  by (simp add: initial_file_def readBookings_simps)

lemma written_sample_booking:
  "written_booking (newBooking e sample_body) = newBooking e sample_body"
  and written_sample_booking_10:
  "written_booking (newBooking e (sample_body\<lparr>time := JStr ''10:00''\<rparr>))
     = newBooking e (sample_body\<lparr>time := JStr ''10:00''\<rparr>)"
  by (simp_all add: written_booking_def newBooking_def sample_body_def or_empty_def)

lemma initial_file_available: "isTimeSlotAvailable initial_file d t"
  by (simp add: isTimeSlotAvailable_iff stored_initial_file)

lemma single_file_eq:
  "single_file = Stored (Document \<lparr>bookings = [newBooking sample_env sample_body]\<rparr>)"
proof -
  have w: "disk sample_env = Written" by (simp add: sample_env_def)
  show ?thesis
    by (simp add: single_file_def run_def handle_def
        createBooking_201 [OF sample_body_valid initial_file_available w]
        stored_initial_file JSON_stringify_def written_sample_booking)
qed

lemma single_file_available:
  "isTimeSlotAvailable single_file (JStr ''2025-03-10'') (JStr ''10:00'')"
  by (simp add: isTimeSlotAvailable_iff single_file_eq readBookings_simps newBooking_def
      sample_body_def strict_eq_JStr)

lemma twin_file_eq:
  "twin_file =
     Stored (Document \<lparr>bookings =
       [newBooking sample_env sample_body,
        newBooking sample_env (sample_body\<lparr>time := JStr ''10:00''\<rparr>)]\<rparr>)"
proof -
  let ?rq = "sample_body\<lparr>time := JStr ''10:00''\<rparr>"
  have w: "disk sample_env = Written" by (simp add: sample_env_def)
  have v: "\<forall>v \<in> set (required_fields ?rq). \<not> falsy v"
    by (simp add: required_fields_def sample_body_def)
  have a: "isTimeSlotAvailable single_file (date ?rq) (time ?rq)"
    using single_file_available by (simp add: sample_body_def)
  have "twin_file = fs (createBooking sample_env ?rq single_file)"
    by (simp add: twin_file_def single_file_def run_def)
       (simp add: handle_def)
  also have "\<dots> = Stored (JSON_stringify
       \<lparr>bookings = stored single_file @ [newBooking sample_env ?rq]\<rparr>)"
    by (simp add: createBooking_201 [OF v a w])
  finally show ?thesis
    by (simp add: single_file_eq readBookings_simps JSON_stringify_def written_sample_booking
        written_sample_booking_10)
qed

lemma stored_twin_file:
  "stored twin_file =
     [newBooking sample_env sample_body,
      newBooking sample_env (sample_body\<lparr>time := JStr ''10:00''\<rparr>)]"
  by (simp add: twin_file_eq readBookings_simps)

lemma array_file_eq:
  "array_file = Stored (Document \<lparr>bookings = [newBooking sample_env array_body]\<rparr>)"
proof -
  have w: "disk sample_env = Written" by (simp add: sample_env_def)
  have v: "\<forall>v \<in> set (required_fields array_body). \<not> falsy v"
    by (simp add: required_fields_def array_body_def sample_body_def)
  have wr: "written_booking (newBooking sample_env array_body) = newBooking sample_env array_body"
    by (simp add: written_booking_def newBooking_def array_body_def sample_body_def
        or_empty_def)
  show ?thesis
    by (simp add: array_file_def run_def handle_def
        createBooking_201 [OF v initial_file_available w]
        stored_initial_file JSON_stringify_def wr)
qed

section \<open>Availability (C1)\<close>

text \<open>
  C1, as amended. For every non-empty date string and every bookings file, the availability
  handler answers 200 with the fixed list of eleven labels, in its order, without the
  labels that are the time of a stored booking of that date; the booked times are listed
  beside it. When no stored booking has that date, the answer is the whole fixed list.
\<close>

theorem availableSlots_correct:
  assumes "d \<noteq> []"
  shows "availableSlots (JStr d) f =
           \<lparr>status = 200,
            payload = AvailableBody (JStr d)
              (filter (\<lambda>t. \<not> (\<exists>b \<in> set (stored f). date b = JStr d \<and> time b = JStr t))
                 allTimeSlots)
              (map time (filter (\<lambda>b. date b = JStr d) (stored f)))\<rparr>
         \<and> ((\<forall>b \<in> set (stored f). date b \<noteq> JStr d) \<longrightarrow>
              availableSlots (JStr d) f =
                \<lparr>status = 200, payload = AvailableBody (JStr d) allTimeSlots []\<rparr>)"
proof -
  have booked: "includes_js (map time (filter (\<lambda>b. date b = JStr d) (stored f))) (JStr t)
                \<longleftrightarrow> (\<exists>b \<in> set (stored f). date b = JStr d \<and> time b = JStr t)" for t
    unfolding includes_js_JStr by force
  have first: "availableSlots (JStr d) f =
           \<lparr>status = 200,
            payload = AvailableBody (JStr d)
              (filter (\<lambda>t. \<not> (\<exists>b \<in> set (stored f). date b = JStr d \<and> time b = JStr t))
                 allTimeSlots)
              (map time (filter (\<lambda>b. date b = JStr d) (stored f)))\<rparr>"
    using assms by (simp only: availableSlots_def Let_def strict_eq_JStr booked) simp
  have "filter (\<lambda>b. date b = JStr d) (stored f) = []"
    if "\<forall>b \<in> set (stored f). date b \<noteq> JStr d"
    using that by (simp add: filter_empty_conv)
  then show ?thesis using first by (simp add: filter_empty_conv)
qed

text \<open>
  On the file with bookings at 09:00 and 10:00 of 2025-03-10: that day has nine free
  labels, the next day all eleven.
\<close>

theorem availableSlots_correct_witness:
  "availableSlots (JStr ''2025-03-10'') twin_file =
     \<lparr>status = 200,
      payload = AvailableBody (JStr ''2025-03-10'')
        [''08:00'', ''11:00'', ''12:00'', ''13:00'', ''14:00'', ''15:00'', ''16:00'',
         ''17:00'', ''18:00'']
        [JStr ''09:00'', JStr ''10:00'']\<rparr>
   \<and> availableSlots (JStr ''2025-03-11'') twin_file =
        \<lparr>status = 200, payload = AvailableBody (JStr ''2025-03-11'') allTimeSlots []\<rparr>"
proof -
  have ne: "''2025-03-10'' \<noteq> []" "''2025-03-11'' \<noteq> []" by simp_all
  show ?thesis
    using availableSlots_correct [OF ne(1), of twin_file]
      availableSlots_correct [OF ne(2), of twin_file]
    by (simp add: stored_twin_file newBooking_def sample_body_def allTimeSlots_def)
qed

text \<open>
  The claim as written, for every date string, fails at the empty string: the guard
  \<^verbatim>\<open>if (!date)\<close> answers 400 and no list.
\<close>

theorem availableSlots_empty_date_counterexample:
  "availableSlots (JStr '''') initial_file = \<lparr>status = 400, payload = ErrorBody DateRequired\<rparr>
   \<and> payload (availableSlots (JStr '''') initial_file)
       \<noteq> AvailableBody (JStr '''') allTimeSlots []"
  by (simp add: availableSlots_def)

section \<open>Creating a booking (C2, C3, C5)\<close>



text \<open>
  C3, as amended. For every request whose required fields are all present and non-empty,
  so that each passes the handler's test, whose date and time are neither arrays nor
  objects, and whose date and time are those of a stored booking, the booking handler
  answers 409 and leaves the bookings file as it was, whatever the clock, the disk and the
  mail transport do.
\<close>

theorem createBooking_conflict:
  assumes "\<forall>v \<in> set (required_fields rq). \<not> falsy v"
    and "\<not> compound (date rq)" and "\<not> compound (time rq)"
    and "(date rq, time rq) \<in> set (slots (stored f))"
  shows "createBooking e rq f =
           \<lparr>response = \<lparr>status = 409, payload = ErrorBody SlotTaken\<rparr>, fs = f, console = []\<rparr>"
proof -
  have "\<not> isTimeSlotAvailable f (date rq) (time rq)"
    using assms(4,2,3) by (rule taken_slot_unavailable)
  with assms(1) show ?thesis by (rule createBooking_409)
qed

text \<open>Asking again for 09:00 of the day that already has bookings at 09:00 and 10:00.\<close>

theorem createBooking_conflict_witness:
  "createBooking sample_env sample_body twin_file =
     \<lparr>response = \<lparr>status = 409, payload = ErrorBody SlotTaken\<rparr>, fs = twin_file, console = []\<rparr>"
proof -
  have c: "\<not> compound (date sample_body)" "\<not> compound (time sample_body)"
    by (simp_all add: sample_body_def)
  have taken: "(date sample_body, time sample_body) \<in> set (slots (stored twin_file))"
    by (simp add: stored_twin_file slots_def newBooking_def)
  show ?thesis
    by (rule createBooking_conflict [OF sample_body_valid c taken])
qed

text \<open>
  The claim as written fails when the time is sent as an array: the file holds one
  booking whose date and time are those of the request, and the same request, one
  millisecond later, is answered 201 and stored a second time, because \<^verbatim>\<open>===\<close> never
  holds between the stored array and the array of the request.
\<close>

theorem createBooking_array_time_counterexample:
  "\<not> list_ex falsy (required_fields array_body)
   \<and> stored array_file = [newBooking sample_env array_body]
   \<and> (date array_body, time array_body) \<in> set (slots (stored array_file))
   \<and> status (response (createBooking (sample_env\<lparr>now := 1741600000001\<rparr>) array_body
         array_file)) = 201
   \<and> stored (fs (createBooking (sample_env\<lparr>now := 1741600000001\<rparr>) array_body array_file))
       = [newBooking sample_env array_body,
          newBooking (sample_env\<lparr>now := 1741600000001\<rparr>) array_body]"
proof -
  let ?e = "sample_env\<lparr>now := 1741600000001\<rparr>"
  have v: "\<forall>v \<in> set (required_fields array_body). \<not> falsy v"
    by (simp add: required_fields_def array_body_def sample_body_def)
  have st: "stored array_file = [newBooking sample_env array_body]"
    by (simp add: array_file_eq readBookings_simps)
  have a: "isTimeSlotAvailable array_file (date array_body) (time array_body)"
    by (simp add: isTimeSlotAvailable_iff st array_body_def strict_eq_def)
  have w: "disk ?e = Written" by (simp add: sample_env_def)
  have wr: "written_booking (newBooking e array_body) = newBooking e array_body" for e
    by (simp add: written_booking_def newBooking_def array_body_def sample_body_def
        or_empty_def)
  have one: "\<not> list_ex falsy (required_fields array_body)"
    using v by (simp add: list_ex_iff)
  have two: "(date array_body, time array_body) \<in> set (slots (stored array_file))"
    by (simp add: st slots_def newBooking_def)
  have three: "status (response (createBooking ?e array_body array_file)) = 201"
    by (simp add: createBooking_201 [OF v a w])
  have four: "stored (fs (createBooking ?e array_body array_file))
       = [newBooking sample_env array_body, newBooking ?e array_body]"
    by (simp add: stored_createBooking_201 [OF v a w] st wr)
  from one st two three four show ?thesis by blast
qed

text \<open>
  C5, as amended. The booking handler answers 400 exactly when one of the seven required
  fields is missing, \<^verbatim>\<open>null\<close>, the empty string, the number 0 or \<^verbatim>\<open>false\<close>; then the
  bookings file is left as it was and the answer is neither 409 nor 500.
\<close>

theorem createBooking_validation:
  "(status (response (createBooking e rq f)) = 400
      \<longleftrightarrow> (\<exists>v \<in> set (required_fields rq).
             v \<in> {JUndefined, JNull, JStr [], JNum (Finite 0), JBool False}))
   \<and> ((\<exists>v \<in> set (required_fields rq).
           v \<in> {JUndefined, JNull, JStr [], JNum (Finite 0), JBool False}) \<longrightarrow>
        fs (createBooking e rq f) = f
        \<and> status (response (createBooking e rq f)) \<noteq> 409
        \<and> status (response (createBooking e rq f)) \<noteq> 500)"
proof -
  have "falsy v \<longleftrightarrow> v \<in> {JUndefined, JNull, JStr [], JNum (Finite 0), JBool False}" for v
    by (cases v) auto
  then have key: "(\<exists>v \<in> set (required_fields rq).
             v \<in> {JUndefined, JNull, JStr [], JNum (Finite 0), JBool False})
           \<longleftrightarrow> (\<exists>v \<in> set (required_fields rq). falsy v)"
    by blast
  have main: "(status (response (createBooking e rq f)) = 400
                 \<longleftrightarrow> (\<exists>v \<in> set (required_fields rq). falsy v))
              \<and> ((\<exists>v \<in> set (required_fields rq). falsy v) \<longrightarrow>
                   fs (createBooking e rq f) = f
                   \<and> status (response (createBooking e rq f)) \<noteq> 409
                   \<and> status (response (createBooking e rq f)) \<noteq> 500)"
  proof (cases rule: createBooking_cases [where rq = rq and f = f and e = e])
    case invalid
    then show ?thesis by (simp add: createBooking_400 [OF invalid])
  next
    case taken
    then show ?thesis by (simp add: createBooking_409)
  next
    case failed
    then show ?thesis by (simp add: createBooking_500)
  next
    case saved
    then show ?thesis by (simp add: createBooking_201)
  qed
  show ?thesis by (simp only: key) (rule main)
qed

text \<open>
  An empty email, a missing phone and a phone given as the number 0 are refused; the
  complete body is not.
\<close>

theorem createBooking_validation_witness:
  "status (response (createBooking sample_env (sample_body\<lparr>email := JStr ''''\<rparr>) twin_file)) = 400
   \<and> fs (createBooking sample_env (sample_body\<lparr>email := JStr ''''\<rparr>) twin_file) = twin_file
   \<and> status (response (createBooking sample_env (sample_body\<lparr>phone := JUndefined\<rparr>) twin_file))
       = 400
   \<and> status (response (createBooking sample_env (sample_body\<lparr>phone := JNum (Finite 0)\<rparr>)
         twin_file)) = 400
   \<and> status (response (createBooking sample_env sample_body twin_file)) \<noteq> 400"
  using createBooking_validation [of sample_env "sample_body\<lparr>email := JStr ''''\<rparr>" twin_file]
    createBooking_validation [of sample_env "sample_body\<lparr>phone := JUndefined\<rparr>" twin_file]
    createBooking_validation [of sample_env "sample_body\<lparr>phone := JNum (Finite 0)\<rparr>" twin_file]
    createBooking_validation [of sample_env sample_body twin_file]
  by (simp add: required_fields_def sample_body_def)

text \<open>
  The claim as written, 400 only when a required field is missing or empty, fails for a
  body that has all seven fields, none of them empty, with the phone given as the number
  0 or as \<^verbatim>\<open>false\<close>: \<^verbatim>\<open>!0\<close> and \<^verbatim>\<open>!false\<close> hold, and the handler answers 400.
\<close>

theorem createBooking_zero_phone_counterexample:
  "JUndefined \<notin> set (required_fields (sample_body\<lparr>phone := JNum (Finite 0)\<rparr>))
   \<and> JNull \<notin> set (required_fields (sample_body\<lparr>phone := JNum (Finite 0)\<rparr>))
   \<and> JStr [] \<notin> set (required_fields (sample_body\<lparr>phone := JNum (Finite 0)\<rparr>))
   \<and> status (response (createBooking sample_env (sample_body\<lparr>phone := JNum (Finite 0)\<rparr>)
         initial_file)) = 400
   \<and> JUndefined \<notin> set (required_fields (sample_body\<lparr>phone := JBool False\<rparr>))
   \<and> JNull \<notin> set (required_fields (sample_body\<lparr>phone := JBool False\<rparr>))
   \<and> JStr [] \<notin> set (required_fields (sample_body\<lparr>phone := JBool False\<rparr>))
   \<and> status (response (createBooking sample_env (sample_body\<lparr>phone := JBool False\<rparr>)
         initial_file)) = 400"
  by (simp add: createBooking_def required_fields_def sample_body_def)
section \<open>The slot invariant (C4)\<close>

text \<open>
  C4, as amended. Starting from any bookings file in which no two stored bookings share
  date and time and every stored date and time is a plain value (a string, a finite
  number, a boolean, \<^verbatim>\<open>null\<close> or absent), every sequence of delete requests and of booking
  requests whose date and time are plain values, handled one after the other, with any
  clock readings, write outcomes and mail outcomes, leaves a file with the same two
  properties.
\<close>

theorem slot_unique_run:
  assumes "slot_unique (stored f)" and "plain_slots (stored f)"
    and "list_all plain_request rs"
  shows "slot_unique (stored (run f rs)) \<and> plain_slots (stored (run f rs))"
  using assms unfolding run_def
proof (induction rs arbitrary: f)
  case Nil
  then show ?case by simp
next
  case (Cons r rs)
  have "slot_unique (stored (handle f r)) \<and> plain_slots (stored (handle f r))"
  proof (cases r)
    case (Create e rq)
    with Cons.prems(3) have "plain (date rq)" and "plain (time rq)"
      by (simp_all add: plain_request_def)
    with Cons.prems(1,2) show ?thesis
      by (simp add: Create handle_def slot_inv_createBooking)
  next
    case (Delete w i)
    with Cons.prems(1,2) show ?thesis
      by (simp add: handle_def slot_inv_deleteBooking)
  qed
  moreover have "list_all plain_request rs" using Cons.prems(3) by simp
  ultimately show ?case using Cons.IH by simp
qed

text \<open>
  The invariant on the start-up file, and after two bookings, a repeated request for the
  first slot and the deletion of the first booking.
\<close>

theorem slot_unique_run_witness:
  "slot_unique (stored initial_file)
   \<and> slot_unique (stored (run initial_file
        [Create sample_env sample_body,
         Create (sample_env\<lparr>now := 1741600000001\<rparr>) (sample_body\<lparr>time := JStr ''10:00''\<rparr>),
         Create (sample_env\<lparr>now := 1741600000002\<rparr>) sample_body,
         Delete Written ''1741600000000'']))"
proof -
  have h: "slot_unique (stored initial_file)" "plain_slots (stored initial_file)"
    by (simp_all add: stored_initial_file slot_unique_def slots_def plain_slots_def)
  have p: "list_all plain_request
        [Create sample_env sample_body,
         Create (sample_env\<lparr>now := 1741600000001\<rparr>) (sample_body\<lparr>time := JStr ''10:00''\<rparr>),
         Create (sample_env\<lparr>now := 1741600000002\<rparr>) sample_body,
         Delete Written ''1741600000000'']"
    by (simp add: plain_request_def sample_body_def)
  from slot_unique_run [OF h p] h show ?thesis by simp
qed

text \<open>
  The claim as written fails when the time is sent as the number \<^verbatim>\<open>1e999\<close>: it parses to
  \<^verbatim>\<open>Infinity\<close>, which passes \<^verbatim>\<open>!time\<close> and is written to the file as \<^verbatim>\<open>null\<close>. The same
  request one millisecond later finds \<^verbatim>\<open>null === Infinity\<close> false, is booked too, and the
  file then holds two bookings with one date and one time.
\<close>

theorem huge_time_counterexample:
  "slot_unique (stored initial_file)
   \<and> slots (stored huge_file)
       = [(JStr ''2025-03-10'', JNull), (JStr ''2025-03-10'', JNull)]
   \<and> \<not> slot_unique (stored huge_file)"
proof -
  let ?e2 = "sample_env\<lparr>now := 1741600000001\<rparr>"
  let ?f1 = "fs (createBooking sample_env huge_body initial_file)"
  have v: "\<forall>v \<in> set (required_fields huge_body). \<not> falsy v"
    by (simp add: required_fields_def huge_body_def sample_body_def)
  have w: "disk sample_env = Written" "disk ?e2 = Written" by (simp_all add: sample_env_def)
  have s1: "stored ?f1 = [written_booking (newBooking sample_env huge_body)]"
    by (simp add: stored_createBooking_201 [OF v initial_file_available w(1)]
        stored_initial_file)
  have t1: "time (written_booking (newBooking sample_env huge_body)) = JNull"
    and d1: "date (written_booking (newBooking e huge_body)) = JStr ''2025-03-10''"
    and t2: "time (written_booking (written_booking (newBooking e huge_body))) = JNull"
    and d2: "date (written_booking (written_booking (newBooking e huge_body)))
             = JStr ''2025-03-10''" for e
    by (simp_all add: date_written_booking time_written_booking newBooking_def huge_body_def
        sample_body_def)
  have th: "time huge_body = JNum PosInfinity" by (simp add: huge_body_def)
  have a: "isTimeSlotAvailable ?f1 (date huge_body) (time huge_body)"
    by (simp add: isTimeSlotAvailable_iff s1 t1 th strict_eq_def)
  have hf: "huge_file = fs (createBooking ?e2 huge_body ?f1)"
    by (simp add: huge_file_def run_def) (simp add: handle_def)
  have "stored huge_file
      = [written_booking (written_booking (newBooking sample_env huge_body)),
         written_booking (newBooking ?e2 huge_body)]"
    unfolding hf by (simp add: stored_createBooking_201 [OF v a w(2)] s1)
  then have sl: "slots (stored huge_file)
       = [(JStr ''2025-03-10'', JNull), (JStr ''2025-03-10'', JNull)]"
    by (simp add: slots_def d1 d2 t2)
       (simp add: time_written_booking newBooking_def huge_body_def)
  then have "\<not> slot_unique (stored huge_file)" by (simp add: slot_unique_def)
  moreover have "slot_unique (stored initial_file)"
    by (simp add: stored_initial_file slot_unique_def slots_def)
  ultimately show ?thesis using sl by simp
qed

section \<open>Failed writes (C6)\<close>

text \<open>
  C6 holds for the booking handler: when the request reaches the write and the write fails,
  the answer is 500.
\<close>

lemma createBooking_write_failure_500:
  assumes "status (response (createBooking e rq f)) \<notin> {400, 409}" and "disk e \<noteq> Written"
  shows "response (createBooking e rq f) = \<lparr>status = 500, payload = ErrorBody SaveFailed\<rparr>"
proof (cases rule: createBooking_cases [where rq = rq and f = f and e = e])
  case invalid
  then show ?thesis using assms(1) by (simp add: createBooking_400)
next
  case taken
  then show ?thesis using assms(1) by (simp add: createBooking_409)
next
  case failed
  then show ?thesis by (simp add: createBooking_500)
next
  case saved
  then show ?thesis using assms(2) by simp
qed

text \<open>
  C6 fails for the delete handler, which calls \<^verbatim>\<open>saveBookings\<close> and drops its value: with
  one stored booking of id 1741600000000 and a write that fails, deleting that id answers
  200 with the success message, and the booking is still stored.
\<close>

theorem deleteBooking_failed_save_200:
  "deleteBooking FailedUntouched ''1741600000000'' single_file =
     \<lparr>response = \<lparr>status = 200, payload = DeletedBody True BookingDeleted\<rparr>,
      fs = single_file, console = []\<rparr>
   \<and> fst (saveBookings FailedUntouched \<lparr>bookings = []\<rparr> single_file) = False
   \<and> listBookings single_file =
       \<lparr>status = 200, payload = ListBody [newBooking sample_env sample_body]\<rparr>
   \<and> booking_id (newBooking sample_env sample_body) = JStr ''1741600000000''"
  by (simp add: deleteBooking_def listBookings_def single_file_eq readBookings_simps
      saveBookings_simps splice_js_def newBooking_def sample_env_def toString_sample Let_def
      strict_eq_JStr)
section \<open>Deleting a booking (C7)\<close>

lemma distinct_ids_removed:
  assumes "distinct (map g xs)" and "k < length xs"
  shows "g (xs ! k) \<notin> g ` set (take k xs @ drop (Suc k) xs)"
proof -
  have "xs = take k xs @ xs ! k # drop (Suc k) xs"
    using assms(2) by (rule id_take_nth_drop)
  then have "distinct (map g (take k xs @ xs ! k # drop (Suc k) xs))"
    using assms(1) by simp
  then show ?thesis by (simp only: map_append list.map distinct_append distinct.simps) auto
qed

text \<open>
  C7, as amended. For every id that the route passes on, a non-empty string: when no
  stored booking has the id, the delete handler answers 404 and leaves the bookings file as
  it was. When some stored booking has the id and the write succeeds, it answers 200 with
  the success message, the first stored booking with that id is taken out, the others stay
  in their order, and the listing shows exactly them, each as the file gives it back; if
  moreover the stored ids are pairwise distinct, no listed booking has that id.
\<close>

theorem deleteBooking_correct:
  assumes "i \<noteq> []"
  shows
  "((\<forall>b \<in> set (stored f). booking_id b \<noteq> JStr i) \<longrightarrow>
      deleteBooking w i f =
        \<lparr>response = \<lparr>status = 404, payload = ErrorBody BookingNotFound\<rparr>,
         fs = f, console = []\<rparr>)
   \<and> ((\<exists>b \<in> set (stored f). booking_id b = JStr i) \<and> w = Written \<longrightarrow>
        response (deleteBooking w i f) =
          \<lparr>status = 200, payload = DeletedBody True BookingDeleted\<rparr>
      \<and> (\<exists>k < length (stored f).
             booking_id (stored f ! k) = JStr i
           \<and> (\<forall>j < k. booking_id (stored f ! j) \<noteq> JStr i)
           \<and> listBookings (fs (deleteBooking w i f)) =
               \<lparr>status = 200,
                payload = ListBody
                  (map written_booking (take k (stored f) @ drop (Suc k) (stored f)))\<rparr>)
      \<and> (distinct (map booking_id (stored f)) \<longrightarrow>
           (\<forall>b \<in> set (stored (fs (deleteBooking w i f))). booking_id b \<noteq> JStr i)))"
proof (intro conjI impI)
  assume "\<forall>b \<in> set (stored f). booking_id b \<noteq> JStr i"
  with assms show "deleteBooking w i f =
        \<lparr>response = \<lparr>status = 404, payload = ErrorBody BookingNotFound\<rparr>,
         fs = f, console = []\<rparr>"
    by (rule deleteBooking_404)
next
  assume "(\<exists>b \<in> set (stored f). booking_id b = JStr i) \<and> w = Written"
  then have ex: "\<exists>b \<in> set (stored f). booking_id b = JStr i" by simp
  show "response (deleteBooking w i f) =
          \<lparr>status = 200, payload = DeletedBody True BookingDeleted\<rparr>"
    by (simp add: deleteBooking_200 [OF assms ex])
next
  let ?P = "\<lambda>b. booking_id b = JStr i"
  let ?k = "nat (findIndex ?P (stored f))"
  let ?rest = "take ?k (stored f) @ drop (Suc ?k) (stored f)"
  assume "(\<exists>b \<in> set (stored f). booking_id b = JStr i) \<and> w = Written"
  then have ex: "\<exists>b \<in> set (stored f). booking_id b = JStr i" and w: "w = Written"
    by simp_all
  have "findIndex ?P (stored f) \<noteq> - 1"
    using ex by (simp add: findIndex_none)
  from findIndex_found [OF this]
  have k: "?k < length (stored f)" and hit: "?P (stored f ! ?k)"
    and first: "\<forall>j < ?k. \<not> ?P (stored f ! j)"
    by blast+
  have st: "stored (fs (deleteBooking w i f)) = map written_booking ?rest"
    by (simp add: deleteBooking_200 [OF assms ex] w saveBookings_simps readBookings_simps)
  then have "listBookings (fs (deleteBooking w i f)) =
      \<lparr>status = 200, payload = ListBody (map written_booking ?rest)\<rparr>"
    by (simp add: listBookings_def)
  with k hit first
  show "\<exists>k < length (stored f).
             booking_id (stored f ! k) = JStr i
           \<and> (\<forall>j < k. booking_id (stored f ! j) \<noteq> JStr i)
           \<and> listBookings (fs (deleteBooking w i f)) =
               \<lparr>status = 200,
                payload = ListBody
                  (map written_booking (take k (stored f) @ drop (Suc k) (stored f)))\<rparr>"
    by blast
  assume "distinct (map booking_id (stored f))"
  from distinct_ids_removed [OF this k]
  have "JStr i \<notin> booking_id ` set ?rest"
    by (simp only: hit not_False_eq_True)
  then have rest: "\<forall>b \<in> set ?rest. booking_id b \<noteq> JStr i"
    by (metis image_eqI)
  show "\<forall>b \<in> set (stored (fs (deleteBooking w i f))). booking_id b \<noteq> JStr i"
  proof
    fix b
    assume "b \<in> set (stored (fs (deleteBooking w i f)))"
    then obtain b0 where b0: "b0 \<in> set ?rest" and b: "b = written_booking b0"
      unfolding st by (auto simp only: set_map)
    from rest b0 have "booking_id b0 \<noteq> JStr i" by (rule bspec)
    then show "booking_id b \<noteq> JStr i"
      by (simp only: b booking_id_written_booking written_JStr_iff not_False_eq_True)
  qed
qed

text \<open>
  An unknown id on the file of two bookings; and the id of the one booking of a file,
  which leaves an empty listing.
\<close>

theorem deleteBooking_correct_witness:
  "deleteBooking Written ''17'' twin_file =
     \<lparr>response = \<lparr>status = 404, payload = ErrorBody BookingNotFound\<rparr>,
      fs = twin_file, console = []\<rparr>
   \<and> response (deleteBooking Written ''1741600000000'' single_file) =
       \<lparr>status = 200, payload = DeletedBody True BookingDeleted\<rparr>
   \<and> listBookings (fs (deleteBooking Written ''1741600000000'' single_file)) =
       \<lparr>status = 200, payload = ListBody []\<rparr>"
proof -
  have ne: "''17'' \<noteq> []" "''1741600000000'' \<noteq> []" by simp_all
  have none: "\<forall>b \<in> set (stored twin_file). booking_id b \<noteq> JStr ''17''"
    by (simp add: stored_twin_file newBooking_def sample_env_def toString_sample)
  have st: "stored single_file = [newBooking sample_env sample_body]"
    by (simp add: single_file_eq readBookings_simps)
  have some: "\<exists>b \<in> set (stored single_file). booking_id b = JStr ''1741600000000''"
    by (simp add: st newBooking_def sample_env_def toString_sample)
  have dist: "distinct (map booking_id (stored single_file))"
    by (simp add: st)
  from deleteBooking_correct [OF ne(1), of twin_file Written] none
  have a: "deleteBooking Written ''17'' twin_file =
     \<lparr>response = \<lparr>status = 404, payload = ErrorBody BookingNotFound\<rparr>,
      fs = twin_file, console = []\<rparr>"
    by blast
  from deleteBooking_correct [OF ne(2), of single_file Written] some dist
  have b: "response (deleteBooking Written ''1741600000000'' single_file) =
       \<lparr>status = 200, payload = DeletedBody True BookingDeleted\<rparr>"
    and "\<exists>k < length (stored single_file).
          listBookings (fs (deleteBooking Written ''1741600000000'' single_file)) =
            \<lparr>status = 200,
             payload = ListBody (map written_booking
               (take k (stored single_file) @ drop (Suc k) (stored single_file)))\<rparr>"
    by blast+
  then obtain k where "k < length (stored single_file)"
    and l: "listBookings (fs (deleteBooking Written ''1741600000000'' single_file)) =
            \<lparr>status = 200,
             payload = ListBody (map written_booking
               (take k (stored single_file) @ drop (Suc k) (stored single_file)))\<rparr>"
    by blast
  then have "k = 0" by (simp add: st)
  with l have c: "listBookings (fs (deleteBooking Written ''1741600000000'' single_file)) =
       \<lparr>status = 200, payload = ListBody []\<rparr>"
    by (simp add: st)
  from a b c show ?thesis by simp
qed

text \<open>
  The claim as written fails when two stored bookings carry one id, which two bookings
  made within one millisecond do: deleting that id, with the write succeeding, answers
  200, and the listing still shows a booking with that id.
\<close>

theorem deleteBooking_twin_id_counterexample:
  "response (deleteBooking Written ''1741600000000'' twin_file) =
     \<lparr>status = 200, payload = DeletedBody True BookingDeleted\<rparr>
   \<and> listBookings (fs (deleteBooking Written ''1741600000000'' twin_file)) =
       \<lparr>status = 200,
        payload = ListBody [newBooking sample_env (sample_body\<lparr>time := JStr ''10:00''\<rparr>)]\<rparr>
   \<and> booking_id (newBooking sample_env (sample_body\<lparr>time := JStr ''10:00''\<rparr>))
       = JStr ''1741600000000''"
proof -
  have id: "booking_id (newBooking sample_env rq) = JStr ''1741600000000''" for rq
    by (simp add: newBooking_def sample_env_def toString_sample)
  show ?thesis
    by (simp add: deleteBooking_def listBookings_def twin_file_eq readBookings_simps
        saveBookings_simps splice_js_def Let_def strict_eq_JStr id collection_update
        written_sample_booking_10)
qed

section \<open>Mail outcomes (C8)\<close>

text \<open>
  C8. Two runs of the booking handler on the same request and the same bookings file,
  with the same clock and the same disk, that differ only in what the mail transporter
  does, give the same response (status and body) and leave the same bookings file.
\<close>

theorem createBooking_mail_independent:
  "response (createBooking (e\<lparr>transporter := t1\<rparr>) rq f)
     = response (createBooking (e\<lparr>transporter := t2\<rparr>) rq f)
   \<and> fs (createBooking (e\<lparr>transporter := t1\<rparr>) rq f)
     = fs (createBooking (e\<lparr>transporter := t2\<rparr>) rq f)"
  by (simp add: createBooking_def newBooking_def Let_def split_beta)

text \<open>
  On a request that is booked: with both mails delivered and with both mails failing the
  response and the file are the same, and only the console lines differ.
\<close>

theorem createBooking_mail_independent_witness:
  "status (response (createBooking (sample_env\<lparr>transporter := \<lambda>m. True\<rparr>) sample_body
       initial_file)) = 201
   \<and> response (createBooking (sample_env\<lparr>transporter := \<lambda>m. True\<rparr>) sample_body initial_file)
       = response (createBooking (sample_env\<lparr>transporter := \<lambda>m. False\<rparr>) sample_body initial_file)
   \<and> fs (createBooking (sample_env\<lparr>transporter := \<lambda>m. True\<rparr>) sample_body initial_file)
       = fs (createBooking (sample_env\<lparr>transporter := \<lambda>m. False\<rparr>) sample_body initial_file)
   \<and> console (createBooking (sample_env\<lparr>transporter := \<lambda>m. True\<rparr>) sample_body initial_file)
       = [ClinicSent, ClientSent]
   \<and> console (createBooking (sample_env\<lparr>transporter := \<lambda>m. False\<rparr>) sample_body initial_file)
       = [ClinicError, ClientError]"
proof -
  have w: "disk (sample_env\<lparr>transporter := t\<rparr>) = Written" for t
    by (simp add: sample_env_def)
  note eq = createBooking_201 [OF sample_body_valid initial_file_available w]
  have "status (response (createBooking (sample_env\<lparr>transporter := \<lambda>m. True\<rparr>) sample_body
       initial_file)) = 201"
    and "console (createBooking (sample_env\<lparr>transporter := \<lambda>m. True\<rparr>) sample_body initial_file)
       = [ClinicSent, ClientSent]"
    and "console (createBooking (sample_env\<lparr>transporter := \<lambda>m. False\<rparr>) sample_body initial_file)
       = [ClinicError, ClientError]"
    by (simp_all add: eq sendClinicNotification_def sendClientConfirmation_def)
  with createBooking_mail_independent [where e = sample_env and ?t1.0 = "\<lambda>m. True"
      and ?t2.0 = "\<lambda>m. False" and rq = sample_body and f = initial_file]
  show ?thesis by simp
qed

section \<open>Booking ids (C9)\<close>

lemma createBooking_201_only:
  assumes "status (response (createBooking e rq f)) = 201"
  shows "stored (fs (createBooking e rq f))
           = map written_booking (stored f) @ [written_booking (newBooking e rq)]
         \<and> payload (response (createBooking e rq f)) =
             CreatedBody True BookingCreated
               \<lparr>conf_id = JStr (toString (now e)), conf_date = date rq,
                conf_time = time rq, conf_service = service rq\<rparr>"
proof (cases rule: createBooking_cases [where rq = rq and f = f and e = e])
  case invalid
  then show ?thesis using assms by (simp add: createBooking_400)
next
  case taken
  then show ?thesis using assms by (simp add: createBooking_409)
next
  case failed
  then show ?thesis using assms by (simp add: createBooking_500)
next
  case saved
  then show ?thesis by (simp add: createBooking_201 readBookings_simps)
qed

text \<open>
  C9, as amended. Two bookings created by the booking handler at different clock readings
  (\<^verbatim>\<open>Date.now()\<close>, in milliseconds) have different id strings: each successful call appends
  one booking, returns its id in the confirmation, and the two ids differ.
\<close>

theorem createBooking_ids_differ:
  assumes "now e1 \<noteq> now e2"
    and "status (response (createBooking e1 rq1 f1)) = 201"
    and "status (response (createBooking e2 rq2 f2)) = 201"
  shows "stored (fs (createBooking e1 rq1 f1))
           = map written_booking (stored f1) @ [written_booking (newBooking e1 rq1)]
       \<and> stored (fs (createBooking e2 rq2 f2))
           = map written_booking (stored f2) @ [written_booking (newBooking e2 rq2)]
       \<and> payload (response (createBooking e1 rq1 f1)) =
           CreatedBody True BookingCreated
             \<lparr>conf_id = booking_id (written_booking (newBooking e1 rq1)), conf_date = date rq1,
              conf_time = time rq1, conf_service = service rq1\<rparr>
       \<and> payload (response (createBooking e2 rq2 f2)) =
           CreatedBody True BookingCreated
             \<lparr>conf_id = booking_id (written_booking (newBooking e2 rq2)), conf_date = date rq2,
              conf_time = time rq2, conf_service = service rq2\<rparr>
       \<and> booking_id (written_booking (newBooking e1 rq1))
           \<noteq> booking_id (written_booking (newBooking e2 rq2))
       \<and> booking_id (newBooking e1 rq1) \<noteq> booking_id (newBooking e2 rq2)"
proof -
  have id: "booking_id (written_booking (newBooking e rq)) = JStr (toString (now e))"
    and id': "booking_id (newBooking e rq) = JStr (toString (now e))" for e rq
    by (simp_all add: booking_id_written_booking newBooking_def)
  have "toString (now e1) \<noteq> toString (now e2)"
    using assms(1) toString_inj by blast
  with createBooking_201_only [OF assms(2)] createBooking_201_only [OF assms(3)]
  show ?thesis by (simp add: id id')
qed

text \<open>One millisecond apart: the ids are 1741600000000 and 1741600000001.\<close>

theorem createBooking_ids_differ_witness:
  "now sample_env \<noteq> now (sample_env\<lparr>now := 1741600000001\<rparr>)
   \<and> status (response (createBooking sample_env sample_body initial_file)) = 201
   \<and> status (response (createBooking (sample_env\<lparr>now := 1741600000001\<rparr>)
         (sample_body\<lparr>time := JStr ''10:00''\<rparr>) single_file)) = 201
   \<and> booking_id (newBooking sample_env sample_body)
       \<noteq> booking_id (newBooking (sample_env\<lparr>now := 1741600000001\<rparr>)
           (sample_body\<lparr>time := JStr ''10:00''\<rparr>))"
proof -
  let ?e2 = "sample_env\<lparr>now := 1741600000001\<rparr>"
  let ?rq2 = "sample_body\<lparr>time := JStr ''10:00''\<rparr>"
  have n: "now sample_env \<noteq> now ?e2" by (simp add: sample_env_def)
  have w1: "disk sample_env = Written" by (simp add: sample_env_def)
  have s1: "status (response (createBooking sample_env sample_body initial_file)) = 201"
    by (simp add: createBooking_201 [OF sample_body_valid initial_file_available w1])
  have v2: "\<forall>v \<in> set (required_fields ?rq2). \<not> falsy v"
    by (simp add: required_fields_def sample_body_def)
  have a2: "isTimeSlotAvailable single_file (date ?rq2) (time ?rq2)"
    using single_file_available by (simp add: sample_body_def)
  have w2: "disk ?e2 = Written" by (simp add: sample_env_def)
  have s2: "status (response (createBooking ?e2 ?rq2 single_file)) = 201"
    by (simp add: createBooking_201 [OF v2 a2 w2])
  from createBooking_ids_differ [OF n s1 s2] n s1 s2 show ?thesis by blast
qed

text \<open>
  The claim as written fails for two bookings made within one millisecond: both requests
  are answered 201, the two stored bookings differ, and they carry the same id.
\<close>

theorem createBooking_same_ms_counterexample:
  "status (response (createBooking sample_env sample_body initial_file)) = 201
   \<and> fs (createBooking sample_env sample_body initial_file) = single_file
   \<and> status (response (createBooking sample_env (sample_body\<lparr>time := JStr ''10:00''\<rparr>)
         single_file)) = 201
   \<and> stored (fs (createBooking sample_env (sample_body\<lparr>time := JStr ''10:00''\<rparr>) single_file))
       = [newBooking sample_env sample_body,
          newBooking sample_env (sample_body\<lparr>time := JStr ''10:00''\<rparr>)]
   \<and> newBooking sample_env sample_body
       \<noteq> newBooking sample_env (sample_body\<lparr>time := JStr ''10:00''\<rparr>)
   \<and> booking_id (newBooking sample_env sample_body) = JStr ''1741600000000''
   \<and> booking_id (newBooking sample_env (sample_body\<lparr>time := JStr ''10:00''\<rparr>))
       = JStr ''1741600000000''"
proof -
  let ?rq2 = "sample_body\<lparr>time := JStr ''10:00''\<rparr>"
  have w: "disk sample_env = Written" by (simp add: sample_env_def)
  have v2: "\<forall>v \<in> set (required_fields ?rq2). \<not> falsy v"
    by (simp add: required_fields_def sample_body_def)
  have a2: "isTimeSlotAvailable single_file (date ?rq2) (time ?rq2)"
    using single_file_available by (simp add: sample_body_def)
  have one: "status (response (createBooking sample_env sample_body initial_file)) = 201"
    by (simp add: createBooking_201 [OF sample_body_valid initial_file_available w])
  have two: "fs (createBooking sample_env sample_body initial_file) = single_file"
    by (simp add: single_file_def run_def handle_def)
  have three: "status (response (createBooking sample_env ?rq2 single_file)) = 201"
    by (simp add: createBooking_201 [OF v2 a2 w])
  have st: "stored single_file = [newBooking sample_env sample_body]"
    by (simp add: single_file_eq readBookings_simps)
  have four: "stored (fs (createBooking sample_env ?rq2 single_file))
       = [newBooking sample_env sample_body, newBooking sample_env ?rq2]"
    by (simp add: stored_createBooking_201 [OF v2 a2 w] st written_sample_booking
        written_sample_booking_10)
  have five: "newBooking sample_env sample_body \<noteq> newBooking sample_env ?rq2"
    by (simp add: newBooking_def sample_body_def)
  have six: "booking_id (newBooking sample_env rq) = JStr ''1741600000000''" for rq
    by (simp add: newBooking_def sample_env_def toString_sample)
  from one two three four five six show ?thesis by blast
qed

section \<open>Reading a bad file (C10)\<close>

text \<open>
  C10. When the bookings file is missing, unreadable or not JSON, \<^verbatim>\<open>readBookings\<close> returns
  the empty collection, and every endpoint answers as it does on the file
  \<^verbatim>\<open>{ bookings: [] }\<close>: the availability query and the listing give the same response; a
  booking request gives the same response and console lines and leaves the same stored
  bookings; a delete request answers 404, with the handler's message for every id the route
  passes on, and leaves the file as it was.
\<close>

theorem readBookings_total:
  assumes "f = Missing \<or> f = Unreadable \<or> f = Stored Malformed"
  shows "readBookings f = \<lparr>bookings = []\<rparr>
       \<and> availableSlots d f = availableSlots d initial_file
       \<and> listBookings f = listBookings initial_file
       \<and> listBookings f = \<lparr>status = 200, payload = ListBody []\<rparr>
       \<and> response (createBooking e rq f) = response (createBooking e rq initial_file)
       \<and> console (createBooking e rq f) = console (createBooking e rq initial_file)
       \<and> stored (fs (createBooking e rq f)) = stored (fs (createBooking e rq initial_file))
       \<and> status (response (deleteBooking w i f)) = 404
       \<and> fs (deleteBooking w i f) = f
       \<and> (i \<noteq> [] \<longrightarrow> deleteBooking w i f =
           \<lparr>response = \<lparr>status = 404, payload = ErrorBody BookingNotFound\<rparr>,
            fs = f, console = []\<rparr>)
       \<and> response (deleteBooking w i f) = response (deleteBooking w i initial_file)"
proof -
  have rd: "readBookings f = \<lparr>bookings = []\<rparr>"
    using assms by (auto simp: readBookings_simps)
  have rd0: "readBookings initial_file = \<lparr>bookings = []\<rparr>"
    by (simp add: initial_file_def readBookings_simps)
  have av: "availableSlots d f = availableSlots d initial_file"
    by (simp add: availableSlots_def rd rd0)
  have li: "listBookings f = listBookings initial_file"
    and li0: "listBookings f = \<lparr>status = 200, payload = ListBody []\<rparr>"
    by (simp_all add: listBookings_def rd rd0)
  have cr: "response (createBooking e rq f) = response (createBooking e rq initial_file)
       \<and> console (createBooking e rq f) = console (createBooking e rq initial_file)
       \<and> stored (fs (createBooking e rq f)) = stored (fs (createBooking e rq initial_file))"
    by (cases "disk e")
       (simp_all add: createBooking_def isTimeSlotAvailable_def rd rd0 saveBookings_simps
          readBookings_simps Let_def split_beta)
  have de: "status (response (deleteBooking w i f)) = 404"
    and de1: "fs (deleteBooking w i f) = f"
    and de2: "i \<noteq> [] \<longrightarrow> deleteBooking w i f =
           \<lparr>response = \<lparr>status = 404, payload = ErrorBody BookingNotFound\<rparr>,
            fs = f, console = []\<rparr>"
    and de0: "response (deleteBooking w i f) = response (deleteBooking w i initial_file)"
    by (simp_all add: deleteBooking_def rd rd0)
  from rd av li li0 cr de de1 de2 de0 show ?thesis by simp
qed

text \<open>
  With the file missing: the day is free, the listing is empty, a booking goes through and
  is then the only stored one, and a delete finds nothing.
\<close>

theorem readBookings_total_witness:
  "readBookings Missing = \<lparr>bookings = []\<rparr>
   \<and> availableSlots (JStr ''2025-03-10'') Missing =
       \<lparr>status = 200, payload = AvailableBody (JStr ''2025-03-10'') allTimeSlots []\<rparr>
   \<and> listBookings Missing = \<lparr>status = 200, payload = ListBody []\<rparr>
   \<and> status (response (createBooking sample_env sample_body Missing)) = 201
   \<and> stored (fs (createBooking sample_env sample_body Missing))
       = [newBooking sample_env sample_body]
   \<and> deleteBooking Written ''1741600000000'' Missing =
       \<lparr>response = \<lparr>status = 404, payload = ErrorBody BookingNotFound\<rparr>,
        fs = Missing, console = []\<rparr>"
proof -
  have bad: "Missing = Missing \<or> Missing = Unreadable \<or> Missing = Stored Malformed" by simp
  have w: "disk sample_env = Written" by (simp add: sample_env_def)
  note c = createBooking_201 [OF sample_body_valid initial_file_available w]
  note s = stored_createBooking_201 [OF sample_body_valid initial_file_available w]
  have a: "availableSlots (JStr ''2025-03-10'') initial_file =
       \<lparr>status = 200, payload = AvailableBody (JStr ''2025-03-10'') allTimeSlots []\<rparr>"
    by (simp add: availableSlots_def stored_initial_file includes_js_def)
  from readBookings_total [OF bad, of "JStr ''2025-03-10''" sample_env sample_body Written
      "''1741600000000''"]
  have r1: "readBookings Missing = \<lparr>bookings = []\<rparr>"
    and r2: "availableSlots (JStr ''2025-03-10'') Missing
             = availableSlots (JStr ''2025-03-10'') initial_file"
    and r3: "listBookings Missing = \<lparr>status = 200, payload = ListBody []\<rparr>"
    and r4: "response (createBooking sample_env sample_body Missing)
             = response (createBooking sample_env sample_body initial_file)"
    and r5: "stored (fs (createBooking sample_env sample_body Missing))
             = stored (fs (createBooking sample_env sample_body initial_file))"
    and r6': "''1741600000000'' \<noteq> [] \<longrightarrow>
             deleteBooking Written ''1741600000000'' Missing =
               \<lparr>response = \<lparr>status = 404, payload = ErrorBody BookingNotFound\<rparr>,
                fs = Missing, console = []\<rparr>"
    by blast+
  from r6' have r6: "deleteBooking Written ''1741600000000'' Missing =
               \<lparr>response = \<lparr>status = 404, payload = ErrorBody BookingNotFound\<rparr>,
                fs = Missing, console = []\<rparr>"
    by simp
  show ?thesis
    by (simp add: r1 r2 r3 r4 r5 r6 a c s stored_initial_file written_sample_booking
        readBookings_simps)
qed

end
